theory Spec2Isabelle
  imports Main
begin

section \<open>Synthetic file registry (\<open>VueFileInfoManager\<close>)\<close>

text \<open>
  \<open>ts.ScriptKind\<close> of the TypeScript compiler API; the registry only stores and returns
  its values.
\<close>

datatype ScriptKind = Unknown | JS | JSX | TS | TSX | External | JSON | Deferred

text \<open>The interface \<open>FileInfo\<close>: \<open>{ fileName, version, kind }\<close>.\<close>

record FileInfo =
  fileName :: string
  version :: string
  kind :: ScriptKind

text \<open>
  The module \<open>./bridge\<close> is imported by the sources but is not among them: its four
  exported constants are parameters of the model.
\<close>

record bridge =
  bridge_moduleName :: string
  bridge_fileName :: string
  bridge_content :: string
  bridge_oldContent :: string

text \<open>
  The three path predicates of \<open>./util\<close> are imported but not among the sources either:
  they are parameters as well.
\<close>

record util =
  isVueFile :: "string \<Rightarrow> bool"
  isVirtualVueFile :: "string \<Rightarrow> bool"
  isVirtualVueTemplateFile :: "string \<Rightarrow> bool"

text \<open>
  The two private maps of the class, each the own properties of a plain object
  (\<open>= {}\<close>) indexed by file name.
\<close>

record VueFileInfoManager =
  sharedFileInfoMap :: "string \<rightharpoonup> FileInfo"
  virtualVueTemplateFileInfoMap :: "string \<rightharpoonup> FileInfo"

text \<open>
  A plain object inherits the members of \<open>Object.prototype\<close>, and the read
  \<open>object[name]\<close> finds them when the object has no own property of that name. Each
  member is a function, and \<open>__proto__\<close> reads as \<open>Object.prototype\<close> itself: all
  are truthy, and none has a property \<open>version\<close> or \<open>kind\<close>.
\<close>

definition Object_prototype_members :: "string list" where
  "Object_prototype_members =
     [''constructor'', ''hasOwnProperty'', ''isPrototypeOf'', ''propertyIsEnumerable'',
      ''toLocaleString'', ''toString'', ''valueOf'', ''__proto__'', ''__defineGetter__'',
      ''__defineSetter__'', ''__lookupGetter__'', ''__lookupSetter__'']"

datatype 'a property = Own 'a | Inherited | Missing

definition plain_get :: "(string \<rightharpoonup> 'a) \<Rightarrow> string \<Rightarrow> 'a property" where
  "plain_get obj name =
     (case obj name of
        Some v \<Rightarrow> Own v
      | None \<Rightarrow> (if name \<in> set Object_prototype_members then Inherited else Missing))"

text \<open>The constructor registers the bridging file with version \<open>'0'\<close> and kind TS.\<close>

definition new_VueFileInfoManager :: "bridge \<Rightarrow> VueFileInfoManager" where
  "new_VueFileInfoManager b =
     \<lparr> sharedFileInfoMap =
         [bridge_fileName b \<mapsto>
            \<lparr> fileName = bridge_fileName b, version = ''0'', kind = TS \<rparr>],
       virtualVueTemplateFileInfoMap = Map.empty \<rparr>"

text \<open>\<open>getFiles(includeVirtualVueFiles)\<close>, as the set of keys (\<open>Object.keys\<close>).\<close>

definition getFiles :: "VueFileInfoManager \<Rightarrow> bool \<Rightarrow> string set" where
  "getFiles m includeVirtualVueFiles =
     (if includeVirtualVueFiles
      then dom (sharedFileInfoMap m) \<union> dom (virtualVueTemplateFileInfoMap m)
      else dom (sharedFileInfoMap m))"

text \<open>
  \<open>getScriptVersion(fileName)\<close>. The tests \<open>if (this.sharedFileInfoMap[fileName])\<close>
  and \<open>this.virtualVueTemplateFileInfoMap[fileName] ? ... : '0'\<close> succeed on a stored
  \<open>FileInfo\<close> and on an inherited member alike; the \<open>version\<close> of an inherited member
  is \<open>undefined\<close>, which is the result \<open>None\<close>.
\<close>

definition getScriptVersion :: "VueFileInfoManager \<Rightarrow> string \<Rightarrow> string option" where
  "getScriptVersion m f =
     (case plain_get (sharedFileInfoMap m) f of
        Own i \<Rightarrow> Some (version i)
      | Inherited \<Rightarrow> None
      | Missing \<Rightarrow>
          (case plain_get (virtualVueTemplateFileInfoMap m) f of
             Own i \<Rightarrow> Some (version i)
           | Inherited \<Rightarrow> None
           | Missing \<Rightarrow> Some ''0''))"

text \<open>
  \<open>getScriptKind(fileName)\<close> returns the kind, \<open>None\<close> for \<open>undefined\<close>, together
  with the lines it writes with \<open>console.log\<close>.
\<close>

definition getScriptKind :: "VueFileInfoManager \<Rightarrow> string \<Rightarrow> ScriptKind option \<times> string list" where
  "getScriptKind m f =
     (case plain_get (sharedFileInfoMap m) f of
        Own i \<Rightarrow> (Some (kind i), [])
      | Inherited \<Rightarrow> (None, [])
      | Missing \<Rightarrow>
          (case plain_get (virtualVueTemplateFileInfoMap m) f of
             Own i \<Rightarrow> (Some (kind i), [])
           | Inherited \<Rightarrow> (None, [])
           | Missing \<Rightarrow> (Some JS, [''Can'' @ [CHR 0x27] @ ''t find ScriptKind for '' @ f])))"

text \<open>
  \<open>addScript(fileName, kind)\<close>: two independent guarded insertions. Each absence test
  is made on a name that passed a pattern of \<open>./util\<close> (a file name ending in \<open>.vue\<close>,
  \<open>.vue.ts\<close> or \<open>.vue.template\<close>), which is no member of \<open>Object.prototype\<close>: there
  the test \<open>!this.sharedFileInfoMap[fileName]\<close> is the test that the key is absent.
\<close>

definition addScript :: "util \<Rightarrow> string \<Rightarrow> ScriptKind \<Rightarrow> VueFileInfoManager \<Rightarrow> VueFileInfoManager" where
  "addScript u f k m =
     (let m1 =
        (if isVueFile u f \<or> isVirtualVueFile u f
         then (if sharedFileInfoMap m f = None
               then m \<lparr> sharedFileInfoMap :=
                      (sharedFileInfoMap m)(f \<mapsto> \<lparr> fileName = f, version = ''0'', kind = k \<rparr>) \<rparr>
               else m)
         else m)
      in
        (if isVirtualVueTemplateFile u f
         then (if virtualVueTemplateFileInfoMap m1 f = None
               then m1 \<lparr> virtualVueTemplateFileInfoMap :=
                       (virtualVueTemplateFileInfoMap m1)(f \<mapsto> \<lparr> fileName = f, version = ''0'', kind = k \<rparr>) \<rparr>
               else m1)
         else m1))"

text \<open>A registry as the program can build it: the constructor, then any calls of \<open>addScript\<close>.\<close>

fun addScripts :: "util \<Rightarrow> (string \<times> ScriptKind) list \<Rightarrow> VueFileInfoManager \<Rightarrow> VueFileInfoManager" where
  "addScripts u [] m = m"
| "addScripts u ((f, k) # calls) m = addScripts u calls (addScript u f k m)"


section \<open>JavaScript values\<close>

text \<open>
  Values that \<open>JSON.parse\<close> and the editor's configuration deliver, and \<open>undefined\<close>.
  Of a number the modelled code observes only whether it is zero. An object is the list
  of its own properties; a key is looked up from the front.
\<close>

datatype json =
    JUndefined
  | JNull
  | JBool bool
  | JNum int
  | JStr string
  | JArr "json list"
  | JObj "(string \<times> json) list"

text \<open>JavaScript's \<open>ToBoolean\<close>, as \<open>!x\<close>, \<open>x || y\<close> and \<open>x && y\<close> apply it.\<close>

fun truthy :: "json \<Rightarrow> bool" where
  "truthy JUndefined = False"
| "truthy JNull = False"
| "truthy (JBool b) = b"
| "truthy (JNum n) = (n \<noteq> 0)"
| "truthy (JStr s) = (s \<noteq> [])"
| "truthy (JArr xs) = True"
| "truthy (JObj kvs) = True"

datatype js_error = TypeError | SyntaxError | ReferenceError string

text \<open>
  \<open>v[k]\<close> for a value \<open>v\<close> that is neither \<open>undefined\<close> nor \<open>null\<close>. The keys the
  modelled code reads (\<open>vetur\<close>, \<open>experimental\<close>, \<open>templateInterpolationService\<close>,
  \<open>dependencies\<close>, \<open>devDependencies\<close>, \<open>vue\<close>) are properties of no string, array,
  number or boolean, so only an object can answer anything but \<open>undefined\<close>.
\<close>

fun own_prop :: "json \<Rightarrow> string \<Rightarrow> json" where
  "own_prop (JObj kvs) k = (case map_of kvs k of Some v \<Rightarrow> v | None \<Rightarrow> JUndefined)"
| "own_prop v k = JUndefined"

text \<open>The member access \<open>v.k\<close>: a TypeError on \<open>undefined\<close> and \<open>null\<close>.\<close>

fun get_member :: "json \<Rightarrow> string \<Rightarrow> js_error + json" where
  "get_member JUndefined k = Inl TypeError"
| "get_member JNull k = Inl TypeError"
| "get_member v k = Inr (own_prop v k)"

text \<open>Sequencing of computations that may throw.\<close>

definition and_then :: "js_error + 'a \<Rightarrow> ('a \<Rightarrow> js_error + 'b) \<Rightarrow> js_error + 'b" where
  "and_then r f = (case r of Inl e \<Rightarrow> Inl e | Inr v \<Rightarrow> f v)"

text \<open>\<open>String.prototype.endsWith\<close>, \<open>s.slice(0, -n)\<close> and \<open>s.substring(a, b)\<close>.\<close>

definition endsWith :: "string \<Rightarrow> string \<Rightarrow> bool" where
  "endsWith s suf = (length suf \<le> length s \<and> drop (length s - length suf) s = suf)"

definition slice_off :: "string \<Rightarrow> nat \<Rightarrow> string" where
  "slice_off s n = take (length s - n) s"

definition substring :: "string \<Rightarrow> nat \<Rightarrow> nat \<Rightarrow> string" where
  "substring s a b = take (max a b - min a b) (drop (min a b) s)"

text \<open>
  The regular expression \<open>/\d+\.\d+/\<close> of the version probe. \<open>match_here\<close> matches it
  at the start of the string: the longest run of digits, a dot, the longest run of digits
  (giving digits back cannot help: the next character would be a digit, not a dot).
  \<open>regex_match\<close> is \<open>s.match(...)\<close>: the leftmost match, \<open>None\<close> for \<open>null\<close>.
\<close>

definition is_digit :: "char \<Rightarrow> bool" where
  "is_digit c = (c \<in> set ''0123456789'')"

definition match_here :: "string \<Rightarrow> string option" where
  "match_here s =
     (let ds = takeWhile is_digit s; r = dropWhile is_digit s in
      if ds = [] then None
      else (case r of
              [] \<Rightarrow> None
            | c # r' \<Rightarrow>
                (if c = CHR ''.'' \<and> takeWhile is_digit r' \<noteq> []
                 then Some (ds @ [c] @ takeWhile is_digit r')
                 else None)))"

fun regex_match :: "string \<Rightarrow> string option" where
  "regex_match [] = None"
| "regex_match (c # cs) =
     (case match_here (c # cs) of Some m \<Rightarrow> Some m | None \<Rightarrow> regex_match cs)"

section \<open>Documents\<close>

text \<open>\<open>TextDocument\<close> of vscode-languageserver-types: what \<open>TextDocument.create\<close> takes.\<close>

record TextDocument =
  uri :: string
  languageId :: string
  docVersion :: int
  getText :: string

definition TextDocument_create :: "string \<Rightarrow> string \<Rightarrow> int \<Rightarrow> string \<Rightarrow> TextDocument" where
  "TextDocument_create u l v t = \<lparr> uri = u, languageId = l, docVersion = v, getText = t \<rparr>"

section \<open>The language service host (\<open>createLanguageServiceHost\<close>)\<close>

datatype Extension = Ts | Tsx | Dts | Js | Jsx | Json

record ResolvedModule =
  resolvedFileName :: string
  extension :: Extension

text \<open>
  What the host file takes from outside the sources: the TypeScript module
  (\<open>findConfigFile\<close> with \<open>sys.fileExists\<close>, \<open>sys.readFile\<close>, \<open>resolveModuleName\<close>
  with the compiler options and either \<open>tsModule.sys\<close> or \<open>vueSys\<close>), Node's
  \<open>path.isAbsolute\<close>, \<open>Uri.file(p).toString()\<close> and \<open>Uri.file(p).fsPath\<close>, the
  document cache \<open>jsDocuments.get\<close>, the region extraction
  \<open>getVueDocumentRegions(doc).getSingleTypeDocument('script').getText()\<close> as a function
  of the document's text, \<open>JSON.parse\<close> (\<open>None\<close> when it throws), and the test
  \<open>parseFloat(s) < 2.5\<close> on doubles.
\<close>

record host_env =
  findConfigFile :: "string \<Rightarrow> string \<Rightarrow> string option"
  sys_readFile :: "string \<Rightarrow> string option"
  JSON_parse :: "string \<Rightarrow> json option"
  parseFloat_below_2_5 :: "string \<Rightarrow> bool"
  path_isAbsolute :: "string \<Rightarrow> bool"
  resolveModuleName_sys :: "string \<Rightarrow> string \<Rightarrow> ResolvedModule option"
  resolveModuleName_vueSys :: "string \<Rightarrow> string \<Rightarrow> ResolvedModule option"
  Uri_file_toString :: "string \<Rightarrow> string"
  Uri_file_fsPath :: "string \<Rightarrow> string"
  jsDocuments_get :: "TextDocument \<Rightarrow> TextDocument"
  script_region_text :: "string \<Rightarrow> string"

definition getNormalizedFileFsPath :: "host_env \<Rightarrow> string \<Rightarrow> string" where
  "getNormalizedFileFsPath env f = Uri_file_fsPath env f"

text \<open>
  The body of the \<open>try\<close> block of \<open>isUsingOldVueVersion\<close>. \<open>packageJSONPath && ...\<close>
  is the path itself when the path is \<open>undefined\<close> or the empty string;
  \<open>JSON.parse(undefined)\<close> throws a SyntaxError; \<open>a || b\<close> evaluates \<open>b\<close> only when
  \<open>a\<close> is falsy; \<open>vueStr.match\<close> is a function only when \<open>vueStr\<close> is a string, and
  indexing the \<open>null\<close> of a failed match throws.
\<close>

definition probe_packageJSON :: "host_env \<Rightarrow> string \<Rightarrow> js_error + json" where
  "probe_packageJSON env workspacePath =
     (case findConfigFile env workspacePath ''package.json'' of
        None \<Rightarrow> Inr JUndefined
      | Some p \<Rightarrow>
          (if p = [] then Inr (JStr [])
           else (case sys_readFile env p of
                   None \<Rightarrow> Inl SyntaxError
                 | Some t \<Rightarrow>
                     (case JSON_parse env t of None \<Rightarrow> Inl SyntaxError | Some j \<Rightarrow> Inr j))))"

definition probe_vueStr :: "json \<Rightarrow> js_error + json" where
  "probe_vueStr packageJSON =
     and_then (get_member packageJSON ''dependencies'') (\<lambda>deps.
     and_then (get_member deps ''vue'') (\<lambda>v.
       if truthy v then Inr v
       else and_then (get_member packageJSON ''devDependencies'') (\<lambda>devDeps.
              get_member devDeps ''vue'')))"

definition probe_vueDep :: "json \<Rightarrow> js_error + string" where
  "probe_vueDep vueStr =
     (case vueStr of
        JStr s \<Rightarrow> (case regex_match s of None \<Rightarrow> Inl TypeError | Some d \<Rightarrow> Inr d)
      | _ \<Rightarrow> Inl TypeError)"

definition probe_body :: "host_env \<Rightarrow> string \<Rightarrow> js_error + bool" where
  "probe_body env workspacePath =
     and_then (probe_packageJSON env workspacePath) (\<lambda>packageJSON.
     and_then (probe_vueStr packageJSON) (\<lambda>vueStr.
     and_then (probe_vueDep vueStr) (\<lambda>vueDep.
       Inr (parseFloat_below_2_5 env vueDep))))"

text \<open>\<open>try { ... } catch (e) { return true; }\<close>\<close>

definition isUsingOldVueVersion :: "host_env \<Rightarrow> string \<Rightarrow> bool" where
  "isUsingOldVueVersion env workspacePath =
     (case probe_body env workspacePath of Inl e \<Rightarrow> True | Inr b \<Rightarrow> b)"

definition parseVueScript :: "host_env \<Rightarrow> string \<Rightarrow> string" where
  "parseVueScript env text =
     (let script = script_region_text env text in
      if script = [] then ''export default {};'' else script)"

text \<open>
  The host object: what \<open>createLanguageServiceHost\<close> computes once and its methods close
  over. The registry and the map \<open>scriptDocs\<close> are shared with the service and change
  after the host is created, so the methods take their current values.
\<close>

record LanguageServiceHost =
  isOldVersion :: bool
  includeVirtualVueFiles :: bool
  workspacePath :: string

definition createLanguageServiceHost :: "host_env \<Rightarrow> bool \<Rightarrow> string \<Rightarrow> LanguageServiceHost" where
  "createLanguageServiceHost env includeVirtual wsPath =
     \<lparr> isOldVersion = isUsingOldVueVersion env wsPath,
       includeVirtualVueFiles = includeVirtual,
       workspacePath = wsPath \<rparr>"

definition getScriptFileNames :: "LanguageServiceHost \<Rightarrow> VueFileInfoManager \<Rightarrow> string set" where
  "getScriptFileNames h m = getFiles m (includeVirtualVueFiles h)"

text \<open>One element of the \<open>moduleNames.map(name => ...)\<close> of \<open>resolveModuleNames\<close>.\<close>

definition resolveModuleName1 ::
  "host_env \<Rightarrow> bridge \<Rightarrow> util \<Rightarrow> (string \<rightharpoonup> TextDocument) \<Rightarrow> string \<Rightarrow> string \<Rightarrow> ResolvedModule option" where
  "resolveModuleName1 env b u scriptDocs containingFile name =
     (if name = bridge_moduleName b
      then Some \<lparr> resolvedFileName = bridge_fileName b, extension = Ts \<rparr>
      else if path_isAbsolute env name \<or> \<not> isVueFile u name
      then resolveModuleName_sys env name containingFile
      else (case resolveModuleName_vueSys env name containingFile of
              None \<Rightarrow> None
            | Some resolved \<Rightarrow>
                (if \<not> endsWith (resolvedFileName resolved) ''.vue.ts'' then Some resolved
                 else
                   (let rfn = slice_off (resolvedFileName resolved) (length ''.ts'');
                        doc =
                          (case scriptDocs rfn of
                             Some d \<Rightarrow> d
                           | None \<Rightarrow>
                               jsDocuments_get env
                                 (TextDocument_create (Uri_file_toString env rfn) ''vue'' 0
                                    (case sys_readFile env rfn of None \<Rightarrow> [] | Some t \<Rightarrow> t)));
                        ext =
                          (if languageId doc = ''typescript'' then Ts
                           else if languageId doc = ''tsx'' then Tsx
                           else Js)
                    in Some \<lparr> resolvedFileName = rfn, extension = ext \<rparr>))))"

definition resolveModuleNames ::
  "host_env \<Rightarrow> bridge \<Rightarrow> util \<Rightarrow> (string \<rightharpoonup> TextDocument) \<Rightarrow> string list \<Rightarrow> string \<Rightarrow>
     ResolvedModule option list" where
  "resolveModuleNames env b u scriptDocs moduleNames containingFile =
     map (resolveModuleName1 env b u scriptDocs containingFile) moduleNames"

text \<open>
  \<open>getScriptSnapshot(fileName)\<close>: the snapshot is its text, read through
  \<open>snapshot_getText\<close> and \<open>snapshot_getLength\<close>.
\<close>

definition getScriptSnapshot ::
  "host_env \<Rightarrow> bridge \<Rightarrow> util \<Rightarrow> LanguageServiceHost \<Rightarrow> (string \<rightharpoonup> TextDocument) \<Rightarrow> string \<Rightarrow> string" where
  "getScriptSnapshot env b u h scriptDocs f =
     (if f = bridge_fileName b
      then (if isOldVersion h then bridge_oldContent b else bridge_content b)
      else
        (let normalizedFileFsPath = getNormalizedFileFsPath env f;
             doc = scriptDocs normalizedFileFsPath;
             fileText =
               (case doc of
                  Some d \<Rightarrow> getText d
                | None \<Rightarrow>
                    (case sys_readFile env normalizedFileFsPath of None \<Rightarrow> [] | Some t \<Rightarrow> t))
         in if doc = None \<and> isVueFile u f then parseVueScript env fileText else fileText))"

definition snapshot_getText :: "string \<Rightarrow> nat \<Rightarrow> nat \<Rightarrow> string" where
  "snapshot_getText text a b = substring text a b"

definition snapshot_getLength :: "string \<Rightarrow> nat" where
  "snapshot_getLength text = length text"

section \<open>The service (\<open>VueTypescriptLanguageService\<close>)\<close>

text \<open>
  \<open>getFileFsPath\<close> and \<open>getFilePath\<close> of \<open>utils/paths\<close> are imported but not among the
  sources.
\<close>

record paths =
  getFileFsPath :: "string \<Rightarrow> string"
  getFilePath :: "string \<Rightarrow> string"

text \<open>
  The two fields of the class that \<open>updateCurrentTextDocument\<close> concerns:
  \<open>this.scriptDocs\<close> and \<open>this.versions\<close>. \<open>versions\<close> counts in JavaScript
  numbers; the model counts in \<open>nat\<close>.
\<close>

record service_state =
  scriptDocs :: "string \<rightharpoonup> TextDocument"
  versions :: "string \<rightharpoonup> nat"

definition new_service_state :: service_state where
  "new_service_state = \<lparr> scriptDocs = Map.empty, versions = Map.empty \<rparr>"

text \<open>\<open>versions.get(f) || 0\<close>\<close>

definition version_or_0 :: "service_state \<Rightarrow> string \<Rightarrow> nat" where
  "version_or_0 st f = (case versions st f of None \<Rightarrow> 0 | Some n \<Rightarrow> n)"

text \<open>
  \<open>updateCurrentTextDocument(doc)\<close>. The module binds the names it imports (\<open>ts\<close>,
  \<open>parseGitIgnore\<close>, \<open>getVueSys\<close>, \<open>TextDocument\<close>, \<open>VueFileInfoManager\<close>,
  \<open>createLanguageServiceHost\<close>, \<open>createUpdater\<close>, \<open>getFileFsPath\<close>,
  \<open>getFilePath\<close>, and types), its class and its four functions; the method binds
  \<open>doc\<close>, \<open>fileFsPath\<close> and \<open>filePath\<close>. Nothing binds \<open>files\<close>,
  \<open>isVirtualVueTemplateFile\<close>, \<open>scriptDocs\<close>, \<open>versions\<close>, \<open>jsDocuments\<close>,
  \<open>jsLanguageService\<close>, \<open>templateLanguageService\<close> or \<open>templateSourceMap\<close>, and
  \<open>currentScriptDoc\<close> is a local variable of \<open>init\<close>. Reading an unbound name
  throws a ReferenceError. The method reads \<open>this.scriptDocs.has(fileFsPath)\<close>; when
  the key is absent and the path ends in \<open>.vue\<close> or \<open>.vue.template\<close> it evaluates
  \<open>files.push(filePath)\<close>, which throws; otherwise it goes on to the test
  \<open>isVirtualVueTemplateFile(fileFsPath)\<close>, which throws. Neither path has written
  anything by then, and the statements after the test (both \<open>versions.set\<close> calls
  among them) are never reached. The result is the exception, or the state after a
  return.
\<close>

definition updateCurrentTextDocument :: "paths \<Rightarrow> service_state \<Rightarrow> TextDocument \<Rightarrow> js_error + service_state" where
  "updateCurrentTextDocument ps st doc =
     (let fileFsPath = getFileFsPath ps (uri doc);
          filePath = getFilePath ps (uri doc)
      in
        if scriptDocs st fileFsPath = None \<and>
           (endsWith fileFsPath ''.vue'' \<or> endsWith fileFsPath ''.vue.template'')
        then Inl (ReferenceError ''files'')
        else Inl (ReferenceError ''isVirtualVueTemplateFile''))"

text \<open>
  The state of the service after a call, whether it returned or threw: an exception
  leaves the state as it was when it was thrown.
\<close>

definition state_after :: "paths \<Rightarrow> service_state \<Rightarrow> TextDocument \<Rightarrow> service_state" where
  "state_after ps st doc =
     (case updateCurrentTextDocument ps st doc of Inl e \<Rightarrow> st | Inr st' \<Rightarrow> st')"

text \<open>A sequence of calls, each made on the state the one before left.\<close>

fun states_after :: "paths \<Rightarrow> service_state \<Rightarrow> TextDocument list \<Rightarrow> service_state" where
  "states_after ps st [] = st"
| "states_after ps st (d # ds) = states_after ps (state_after ps st d) ds"

section \<open>The interpolation mode (\<open>VueInterpolationMode\<close>)\<close>

record Position =
  line :: nat
  character :: nat

record Range =
  range_start :: Position
  range_end :: Position

definition Range_create :: "Position \<Rightarrow> Position \<Rightarrow> Range" where
  "Range_create s e = \<lparr> range_start = s, range_end = e \<rparr>"

text \<open>\<open>ts.TextSpan\<close>: \<open>{ start, length }\<close>.\<close>

record TextSpan =
  span_start :: nat
  span_length :: nat

text \<open>
  A diagnostic of the engine. The source casts it to a \<open>TextSpan\<close> (its \<open>start\<close> and
  \<open>length\<close>) and reads \<open>messageText\<close>, a string or a chain of messages, and \<open>code\<close>.
\<close>

datatype MessageText = MessageString string | MessageChain "string list"

record ts_Diagnostic =
  ts_span :: TextSpan
  messageText :: MessageText
  ts_code :: int

datatype DiagnosticSeverity = Error | Warning | Information | Hint

record Diagnostic =
  diag_range :: Range
  severity :: DiagnosticSeverity
  message :: string
  code :: int
  source :: string

record Location =
  loc_uri :: string
  loc_range :: Range

text \<open>
  \<open>ts.DocumentSpan\<close>, the part of a \<open>DefinitionInfo\<close> and of a \<open>ReferenceEntry\<close> that
  the source reads: \<open>fileName\<close> and \<open>textSpan\<close>.
\<close>

record DocumentSpan =
  span_fileName :: string
  textSpan :: TextSpan

record QuickInfo =
  info_textSpan :: TextSpan
  displayParts :: "string list"
  documentation :: "string list"

datatype MarkedString = MarkedText string | MarkedCode string string

record Hover =
  contents :: "MarkedString list"
  hover_range :: "Range option"

record Command =
  title :: string
  command_id :: string

record CodeActionContext =
  context_diagnostics :: "Diagnostic list"

text \<open>The queries made on the template engine, in the order they are made.\<close>

datatype engine_call =
    IncludesFile string
  | GetSemanticDiagnostics string
  | GetSyntacticDiagnostics string
  | GetQuickInfoAtPosition string nat
  | GetDefinitionAtPosition string nat
  | GetReferencesAtPosition string nat
  | GetProgram
  | GetCodeFixesAtPosition string nat nat "int list"
  | GetApplicableRefactors string nat nat

text \<open>
  What the mode takes from outside the sources. The engine's answers may depend on what
  the service has projected, so every query takes the service's state. A program is
  \<open>getSourceFile(fileName)\<close> followed by \<open>getFullText()\<close>: the text of a file, or
  \<open>undefined\<close>. The mode's \<open>serviceHost\<close> is an \<open>IServiceHost\<close>, an interface of
  a module that is not among the sources: \<open>host_updateCurrentTextDocument\<close> is what
  its \<open>updateCurrentTextDocument\<close> does to the state, and \<open>templateSourceMap\<close> the
  source map it returns. \<open>mapBackRange\<close> and
  \<open>mapFromPositionToOffset\<close> are those of \<open>sourceMap\<close>, \<open>positionAt\<close> that of
  \<open>TextDocument\<close>. \<open>supportedCodeFixNumbers\<close> is
  \<open>getSupportedCodeFixes().map(Number).filter(x => !isNaN(x))\<close>. \<open>quickFixCommands\<close>
  is what \<open>collectQuickFixCommands\<close> pushes for the answer of
  \<open>getCodeFixesAtPosition\<close> (with the format settings of the configuration), and
  \<open>refactoringCommands\<close> what \<open>collectRefactoringCommands\<close> pushes for the answer of
  \<open>getApplicableRefactors\<close>.
\<close>

record 'sm mode_env =
  env_paths :: paths
  host_updateCurrentTextDocument :: "service_state \<Rightarrow> TextDocument \<Rightarrow> service_state"
  languageServiceIncludesFile :: "service_state \<Rightarrow> string \<Rightarrow> bool"
  templateSourceMap :: "service_state \<Rightarrow> 'sm"
  mapBackRange :: "TextDocument \<Rightarrow> TextSpan \<Rightarrow> 'sm \<Rightarrow> Range"
  mapFromPositionToOffset :: "TextDocument \<Rightarrow> Position \<Rightarrow> 'sm \<Rightarrow> nat"
  positionAt :: "TextDocument \<Rightarrow> nat \<Rightarrow> Position"
  flattenDiagnosticMessageText :: "MessageText \<Rightarrow> string \<Rightarrow> string"
  displayPartsToString :: "string list \<Rightarrow> string"
  getSemanticDiagnostics :: "service_state \<Rightarrow> string \<Rightarrow> ts_Diagnostic list"
  getQuickInfoAtPosition :: "service_state \<Rightarrow> string \<Rightarrow> nat \<Rightarrow> QuickInfo option"
  getDefinitionAtPosition :: "service_state \<Rightarrow> string \<Rightarrow> nat \<Rightarrow> DocumentSpan list option"
  getReferencesAtPosition :: "service_state \<Rightarrow> string \<Rightarrow> nat \<Rightarrow> DocumentSpan list option"
  getProgram :: "service_state \<Rightarrow> (string \<Rightarrow> string option) option"
  supportedCodeFixNumbers :: "int list"
  quickFixCommands :: "service_state \<Rightarrow> string \<Rightarrow> nat \<Rightarrow> nat \<Rightarrow> int list \<Rightarrow> json \<Rightarrow> Command list"
  refactoringCommands :: "service_state \<Rightarrow> string \<Rightarrow> nat \<Rightarrow> nat \<Rightarrow> json \<Rightarrow> Command list"

text \<open>
  The mode's own fields (\<open>config\<close>, initially \<open>{}\<close>, and the lazily filled
  \<open>supportedCodeFixCodes\<close>), the state of the service host it holds, and the queries
  made so far.
\<close>

record mode_state =
  config :: json
  supportedCodeFixCodes :: "int list option"
  service :: service_state
  engine_calls :: "engine_call list"

definition new_mode_state :: mode_state where
  "new_mode_state =
     \<lparr> config = JObj [], supportedCodeFixCodes = None, service = new_service_state,
       engine_calls = [] \<rparr>"

definition configure :: "json \<Rightarrow> mode_state \<Rightarrow> mode_state" where
  "configure c ms = ms \<lparr> config := c \<rparr>"

definition called :: "engine_call \<Rightarrow> mode_state \<Rightarrow> mode_state" where
  "called c ms = ms \<lparr> engine_calls := engine_calls ms @ [c] \<rparr>"

text \<open>
  lodash's \<open>_.get(object, path, defaultValue)\<close> for a path given as an array of keys:
  the walk stops at \<open>undefined\<close> or \<open>null\<close>, the result is \<open>undefined\<close> unless the whole
  path was walked, and the default replaces an \<open>undefined\<close> result only.
\<close>

fun nullish :: "json \<Rightarrow> bool" where
  "nullish JUndefined = True"
| "nullish JNull = True"
| "nullish v = False"

fun baseGet :: "json \<Rightarrow> string list \<Rightarrow> json" where
  "baseGet obj [] = obj"
| "baseGet obj (k # ks) = (if nullish obj then JUndefined else baseGet (own_prop obj k) ks)"

definition lodash_get :: "json \<Rightarrow> string list \<Rightarrow> json \<Rightarrow> json" where
  "lodash_get obj path dflt =
     (let result = (if nullish obj \<or> path = [] then JUndefined else baseGet obj path)
      in if result = JUndefined then dflt else result)"

text \<open>
  The guard that opens every operation:
  \<open>_.get(this.config, ['vetur', 'experimental', 'templateInterpolationService'], true)\<close>,
  read as a boolean.
\<close>

definition templateInterpolationService :: "json \<Rightarrow> bool" where
  "templateInterpolationService cfg =
     truthy (lodash_get cfg [''vetur'', ''experimental'', ''templateInterpolationService'']
               (JBool True))"

text \<open>\<open>TextDocument.create(document.uri + '.template', ...)\<close>\<close>

definition template_doc :: "TextDocument \<Rightarrow> TextDocument" where
  "template_doc document =
     TextDocument_create (uri document @ ''.template'') (languageId document)
       (docVersion document) (getText document)"

text \<open>
  The lines every operation shares after its guard: project the template document, then
  ask whether the template engine includes it.
\<close>

definition project_template :: "'sm mode_env \<Rightarrow> mode_state \<Rightarrow> TextDocument \<Rightarrow> mode_state" where
  "project_template env ms document =
     called (IncludesFile (uri (template_doc document)))
       (ms \<lparr> service :=
               host_updateCurrentTextDocument env (service ms) (template_doc document) \<rparr>)"

definition lsp_diagnostic :: "'sm mode_env \<Rightarrow> TextDocument \<Rightarrow> 'sm \<Rightarrow> ts_Diagnostic \<Rightarrow> Diagnostic" where
  "lsp_diagnostic env templateDoc sm diag =
     \<lparr> diag_range = mapBackRange env templateDoc (ts_span diag) sm,
       severity = Error,
       message = flattenDiagnosticMessageText env (messageText diag) [CHR 0x0A],
       code = ts_code diag,
       source = ''Vetur'' \<rparr>"

definition doValidation :: "'sm mode_env \<Rightarrow> mode_state \<Rightarrow> TextDocument \<Rightarrow> Diagnostic list \<times> mode_state" where
  "doValidation env ms document =
     (if \<not> templateInterpolationService (config ms) then ([], ms)
      else
        (let templateDoc = template_doc document;
             ms1 = project_template env ms document
         in if \<not> languageServiceIncludesFile env (service ms1) (uri templateDoc) then ([], ms1)
            else
              (let templateFileFsPath = getFileFsPath (env_paths env) (uri templateDoc);
                   rawTemplateDiagnostics =
                     getSemanticDiagnostics env (service ms1) templateFileFsPath
               in (map (lsp_diagnostic env templateDoc (templateSourceMap env (service ms1)))
                     rawTemplateDiagnostics,
                   called (GetSemanticDiagnostics templateFileFsPath) ms1))))"

definition doHover :: "'sm mode_env \<Rightarrow> mode_state \<Rightarrow> TextDocument \<Rightarrow> Position \<Rightarrow> Hover \<times> mode_state" where
  "doHover env ms document position =
     (if \<not> templateInterpolationService (config ms)
      then (\<lparr> contents = [], hover_range = None \<rparr>, ms)
      else
        (let templateDoc = template_doc document;
             ms1 = project_template env ms document
         in if \<not> languageServiceIncludesFile env (service ms1) (uri templateDoc)
            then (\<lparr> contents = [], hover_range = None \<rparr>, ms1)
            else
              (let sm = templateSourceMap env (service ms1);
                   templateFileFsPath = getFileFsPath (env_paths env) (uri templateDoc);
                   mappedPosition = mapFromPositionToOffset env templateDoc position sm;
                   ms2 = called (GetQuickInfoAtPosition templateFileFsPath mappedPosition) ms1
               in (case getQuickInfoAtPosition env (service ms1) templateFileFsPath mappedPosition of
                     Some info \<Rightarrow>
                       (let display = displayPartsToString env (displayParts info);
                            doc = displayPartsToString env (documentation info);
                            markedContents =
                              (if doc \<noteq> [] then [MarkedText doc, MarkedText [CHR 0x0A]] else [])
                              @ [MarkedCode ''ts'' display]
                        in (\<lparr> contents = markedContents,
                              hover_range = Some (mapBackRange env templateDoc (info_textSpan info) sm) \<rparr>,
                            ms2))
                   | None \<Rightarrow> (\<lparr> contents = [], hover_range = None \<rparr>, ms2)))))"

text \<open>
  \<open>getSourceDoc\<close>: \<open>program.getSourceFile(fileName)!\<close> asserts the file is there, and
  \<open>getFullText\<close> on \<open>undefined\<close> throws a TypeError.
\<close>

definition getSourceDoc :: "string \<Rightarrow> (string \<Rightarrow> string option) \<Rightarrow> js_error + TextDocument" where
  "getSourceDoc f program =
     (case program f of
        None \<Rightarrow> Inl TypeError
      | Some fullText \<Rightarrow> Inr (TextDocument_create f ''vue'' 0 fullText))"

definition convertRange :: "'sm mode_env \<Rightarrow> TextDocument \<Rightarrow> TextSpan \<Rightarrow> Range" where
  "convertRange env document span =
     Range_create (positionAt env document (span_start span))
       (positionAt env document (span_start span + span_length span))"

text \<open>
  The body of \<open>definitions.forEach(r => ...)\<close> and of \<open>references.forEach(r => ...)\<close>,
  the same in both. The target document is \<open>document\<close> or what \<open>getSourceDoc\<close>
  returns, an object in either case, so the test \<open>if (definitionTargetDoc)\<close> always
  succeeds; an exception leaves the loop and the operation.
\<close>

fun collect_locations ::
  "'sm mode_env \<Rightarrow> (string \<Rightarrow> string option) \<Rightarrow> TextDocument \<Rightarrow> string \<Rightarrow> 'sm \<Rightarrow>
     DocumentSpan list \<Rightarrow> Location list \<Rightarrow> js_error + Location list" where
  "collect_locations env program document templateFileFsPath sm [] results = Inr results"
| "collect_locations env program document templateFileFsPath sm (r # rs) results =
     and_then
       (if span_fileName r = templateFileFsPath then Inr document
        else getSourceDoc (span_fileName r) program)
       (\<lambda>targetDoc.
          collect_locations env program document templateFileFsPath sm rs
            (results @
               [\<lparr> loc_uri = uri targetDoc,
                  loc_range =
                    (if span_fileName r = templateFileFsPath
                     then mapBackRange env (template_doc document) (textSpan r) sm
                     else convertRange env targetDoc (textSpan r)) \<rparr>]))"

text \<open>
  \<open>findDefinition\<close> and \<open>findReferences\<close> differ in the engine query only; \<open>locate\<close>
  is their common text, with the query and its record in the trace as arguments.
\<close>

definition locate ::
  "'sm mode_env \<Rightarrow> (service_state \<Rightarrow> string \<Rightarrow> nat \<Rightarrow> DocumentSpan list option) \<Rightarrow>
     (string \<Rightarrow> nat \<Rightarrow> engine_call) \<Rightarrow> mode_state \<Rightarrow> TextDocument \<Rightarrow> Position \<Rightarrow>
     (js_error + Location list) \<times> mode_state" where
  "locate env query call ms document position =
     (if \<not> templateInterpolationService (config ms) then (Inr [], ms)
      else
        (let templateDoc = template_doc document;
             ms1 = project_template env ms document
         in if \<not> languageServiceIncludesFile env (service ms1) (uri templateDoc)
            then (Inr [], ms1)
            else
              (let sm = templateSourceMap env (service ms1);
                   templateFileFsPath = getFileFsPath (env_paths env) (uri templateDoc);
                   mappedPosition = mapFromPositionToOffset env templateDoc position sm;
                   ms2 = called (call templateFileFsPath mappedPosition) ms1
               in (case query (service ms1) templateFileFsPath mappedPosition of
                     None \<Rightarrow> (Inr [], ms2)
                   | Some found \<Rightarrow>
                       (case getProgram env (service ms1) of
                          None \<Rightarrow> (Inr [], called GetProgram ms2)
                        | Some program \<Rightarrow>
                            (collect_locations env program document templateFileFsPath sm found [],
                             called GetProgram ms2))))))"

definition findDefinition ::
  "'sm mode_env \<Rightarrow> mode_state \<Rightarrow> TextDocument \<Rightarrow> Position \<Rightarrow> (js_error + Location list) \<times> mode_state" where
  "findDefinition env ms document position =
     locate env (getDefinitionAtPosition env) GetDefinitionAtPosition ms document position"

definition findReferences ::
  "'sm mode_env \<Rightarrow> mode_state \<Rightarrow> TextDocument \<Rightarrow> Position \<Rightarrow> (js_error + Location list) \<times> mode_state" where
  "findReferences env ms document position =
     locate env (getReferencesAtPosition env) GetReferencesAtPosition ms document position"

text \<open>
  \<open>getCodeActions\<close>. The test \<open>if (!fixableDiagnosticCodes)\<close> is on an array, which is
  truthy, so its \<open>return []\<close> is never taken.
\<close>

definition getCodeActions ::
  "'sm mode_env \<Rightarrow> mode_state \<Rightarrow> TextDocument \<Rightarrow> Range \<Rightarrow> CodeActionContext \<Rightarrow> Command list \<times> mode_state" where
  "getCodeActions env ms document rng context =
     (if \<not> templateInterpolationService (config ms) then ([], ms)
      else
        (let templateDoc = template_doc document;
             ms1 = project_template env ms document
         in if \<not> languageServiceIncludesFile env (service ms1) (uri templateDoc) then ([], ms1)
            else
              (let sm = templateSourceMap env (service ms1);
                   templateFileFsPath = getFileFsPath (env_paths env) (uri templateDoc);
                   start = mapFromPositionToOffset env templateDoc (range_start rng) sm;
                   end' = mapFromPositionToOffset env templateDoc (range_end rng) sm;
                   supported =
                     (case supportedCodeFixCodes ms1 of
                        None \<Rightarrow> supportedCodeFixNumbers env
                      | Some codes \<Rightarrow> codes);
                   ms2 = ms1 \<lparr> supportedCodeFixCodes := Some supported \<rparr>;
                   fixableDiagnosticCodes =
                     filter (\<lambda>c. c \<in> set supported) (map code (context_diagnostics context));
                   ms3 =
                     called (GetApplicableRefactors templateFileFsPath start end')
                       (called
                          (GetCodeFixesAtPosition templateFileFsPath start end'
                             fixableDiagnosticCodes) ms2)
               in (quickFixCommands env (service ms1) templateFileFsPath start end'
                     fixableDiagnosticCodes (config ms)
                   @ refactoringCommands env (service ms1) templateFileFsPath start end' (config ms),
                   ms3))))"


section \<open>Sample parameters for concrete evaluation\<close>

text \<open>
  An instance of the parameters, used only to run the model on concrete inputs: the path
  predicates as the comments of the registry describe its two maps (\<open>.vue\<close> and
  \<open>.vue.ts\<close> files; \<open>.vue.template\<close> files), and a bridging module.
\<close>

definition sample_util :: util where
  "sample_util =
     \<lparr> isVueFile = (\<lambda>p. endsWith p ''.vue''),
       isVirtualVueFile = (\<lambda>p. endsWith p ''.vue.ts''),
       isVirtualVueTemplateFile = (\<lambda>p. endsWith p ''.vue.template'') \<rparr>"

definition sample_bridge :: bridge where
  "sample_bridge =
     \<lparr> bridge_moduleName = ''vue-editor-bridge'',
       bridge_fileName = ''vue-temp/vue-editor-bridge.ts'',
       bridge_content = ''new content'',
       bridge_oldContent = ''old content'' \<rparr>"

definition sample_registry :: VueFileInfoManager where
  "sample_registry =
     \<lparr> sharedFileInfoMap =
         [''/w/a.vue'' \<mapsto> \<lparr> fileName = ''/w/a.vue'', version = ''3'', kind = TS \<rparr>],
       virtualVueTemplateFileInfoMap =
         [''/w/a.vue.template'' \<mapsto>
            \<lparr> fileName = ''/w/a.vue.template'', version = ''7'', kind = JSX \<rparr>] \<rparr>"

text \<open>Paths from URIs of the form \<open>file://...\<close>.\<close>

definition sample_paths :: paths where
  "sample_paths = \<lparr> getFileFsPath = drop 7, getFilePath = drop 7 \<rparr>"

text \<open>
  A stand-in for \<open>parseFloat(s) < 2.5\<close> on the strings the probe's regular expression
  yields: the comparison of the decimal numeral with 2.5, which is the comparison of the
  doubles for every version string with fewer than sixteen digits.
\<close>

fun digits_value :: "string \<Rightarrow> nat" where
  "digits_value [] = 0"
| "digits_value (c # cs) = (of_char c - 48) * 10 ^ length cs + digits_value cs"

definition decimal_below_2_5 :: "string \<Rightarrow> bool" where
  "decimal_below_2_5 s =
     (let whole = digits_value (takeWhile is_digit s);
          frac = drop 1 (dropWhile is_digit s)
      in whole < 2 \<or> (whole = 2 \<and> (case frac of [] \<Rightarrow> True | c # cs \<Rightarrow> c \<in> set ''01234'')))"

text \<open>
  A file system with five workspaces: \<open>/w\<close> depends on vue 2.5.17, \<open>/old\<close> on vue
  2.4.2 as a development dependency, \<open>/none\<close> on nothing, the \<open>package.json\<close> of
  \<open>/bad\<close> does not parse and that of \<open>/unread\<close> cannot be read; any other workspace has
  no \<open>package.json\<close>. The texts of the JSON files are written without their double
  quotes, and \<open>JSON_parse\<close> maps each to the value it stands for. \<open>/w/b.vue\<close> is an
  empty file, \<open>/w/t.vue\<close> has a template and no script region, the script region of
  \<open>/w/e.vue\<close> is empty, and \<open>/w/c.vue\<close> has a script region with text. The region
  extraction answers the document with everything outside the script region overwritten
  by spaces, as the service's comment on \<open>scriptDocs\<close> describes it (\<open>.vue file where
  everything other than <script> region overwritten by whitespace\<close>).
\<close>

definition blank :: "string \<Rightarrow> string" where
  "blank t = map (\<lambda>c. if c = CHR 0x0A then c else CHR '' '') t"

definition sample_host_env :: host_env where
  "sample_host_env =
     \<lparr> findConfigFile =
         (\<lambda>w n. if w \<in> set [''/w'', ''/old'', ''/none'', ''/bad'', ''/unread'']
                then Some (w @ ''/'' @ n) else None),
       sys_readFile =
         map_of [(''/w/package.json'', ''{dependencies:{vue:^2.5.17}}''),
                 (''/old/package.json'', ''{dependencies:{},devDependencies:{vue:~2.4.2}}''),
                 (''/none/package.json'', ''{dependencies:{},devDependencies:{}}''),
                 (''/bad/package.json'', ''{dependencies:''),
                 (''/w/b.vue'', []),
                 (''/w/t.vue'', ''<template></template>''),
                 (''/w/e.vue'', ''<script></script>''),
                 (''/w/c.vue'', ''<script>export default {a:1}</script>'')],
       JSON_parse =
         map_of [(''{dependencies:{vue:^2.5.17}}'',
                  JObj [(''dependencies'', JObj [(''vue'', JStr ''^2.5.17'')])]),
                 (''{dependencies:{},devDependencies:{vue:~2.4.2}}'',
                  JObj [(''dependencies'', JObj []),
                        (''devDependencies'', JObj [(''vue'', JStr ''~2.4.2'')])]),
                 (''{dependencies:{},devDependencies:{}}'',
                  JObj [(''dependencies'', JObj []), (''devDependencies'', JObj [])])],
       parseFloat_below_2_5 = decimal_below_2_5,
       path_isAbsolute = (\<lambda>p. take 1 p = ''/''),
       resolveModuleName_sys = (\<lambda>n c. None),
       resolveModuleName_vueSys = (\<lambda>n c. None),
       Uri_file_toString = (\<lambda>p. ''file://'' @ p),
       Uri_file_fsPath = (\<lambda>p. p),
       jsDocuments_get = (\<lambda>d. d),
       script_region_text =
         (\<lambda>t. if t = ''<script>export default {a:1}</script>''
              then blank ''<script>'' @ ''export default {a:1}'' @ blank ''</script>''
              else blank t) \<rparr>"

definition sample_vue_doc :: TextDocument where
  "sample_vue_doc =
     TextDocument_create ''file:///w/a.vue'' ''vue'' 1 ''<script>export default {a:1}</script>''"

text \<open>The next edit of the same document: another text, the next version.\<close>

definition sample_vue_doc_v2 :: TextDocument where
  "sample_vue_doc_v2 =
     TextDocument_create ''file:///w/a.vue'' ''vue'' 2 ''<script>export default {b:2}</script>''"

definition sample_ts_doc :: TextDocument where
  "sample_ts_doc = TextDocument_create ''file:///w/lib.ts'' ''typescript'' 1 ''export const x = 1''"

text \<open>
  A service host that records the document it is given, and a template engine that
  includes every file, reports one semantic diagnostic, finds two
  definitions, of which the second is in a file its program does not hold, and one
  reference. Its source map shifts offsets by ten.
\<close>

definition sample_mode_env :: "unit mode_env" where
  "sample_mode_env =
     \<lparr> env_paths = sample_paths,
       host_updateCurrentTextDocument =
         (\<lambda>st doc. st \<lparr> scriptDocs := (scriptDocs st)(drop 7 (uri doc) \<mapsto> doc) \<rparr>),
       languageServiceIncludesFile = (\<lambda>st u. True),
       templateSourceMap = (\<lambda>st. ()),
       mapBackRange =
         (\<lambda>d span sm.
            Range_create \<lparr> line = 0, character = span_start span - 10 \<rparr>
              \<lparr> line = 0, character = span_start span + span_length span - 10 \<rparr>),
       mapFromPositionToOffset = (\<lambda>d p sm. character p + 10),
       positionAt = (\<lambda>d off. \<lparr> line = 0, character = off \<rparr>),
       flattenDiagnosticMessageText =
         (\<lambda>m nl. case m of MessageString s \<Rightarrow> s
                  | MessageChain ss \<Rightarrow> concat (map (\<lambda>s. s @ nl) ss)),
       displayPartsToString = concat,
       getSemanticDiagnostics =
         (\<lambda>st f. [\<lparr> ts_span = \<lparr> span_start = 14, span_length = 1 \<rparr>,
                     messageText = MessageString ''Cannot find name x.'', ts_code = 2304 \<rparr>]),
       getQuickInfoAtPosition = (\<lambda>st f off. None),
       getDefinitionAtPosition =
         (\<lambda>st f off. Some [\<lparr> span_fileName = ''/w/lib.ts'',
                             textSpan = \<lparr> span_start = 3, span_length = 4 \<rparr> \<rparr>,
                           \<lparr> span_fileName = ''/w/gone.ts'',
                             textSpan = \<lparr> span_start = 0, span_length = 1 \<rparr> \<rparr>]),
       getReferencesAtPosition =
         (\<lambda>st f off. Some [\<lparr> span_fileName = ''/w/lib.ts'',
                             textSpan = \<lparr> span_start = 3, span_length = 4 \<rparr> \<rparr>]),
       getProgram = (\<lambda>st. Some (map_of [(''/w/lib.ts'', ''export const x = 1'')])),
       supportedCodeFixNumbers = [2304],
       quickFixCommands = (\<lambda>st f a b codes cfg. []),
       refactoringCommands = (\<lambda>st f a b cfg. []) \<rparr>"

text \<open>\<open>{ vetur: { experimental: { templateInterpolationService: false } } }\<close>\<close>

definition disabled_config :: json where
  "disabled_config =
     JObj [(''vetur'', JObj [(''experimental'',
        JObj [(''templateInterpolationService'', JBool False)])])]"

section \<open>Properties of the registry\<close>

lemma addScript_shared:
  "sharedFileInfoMap (addScript u f k m) =
     (if (isVueFile u f \<or> isVirtualVueFile u f) \<and> sharedFileInfoMap m f = None
      then (sharedFileInfoMap m)(f \<mapsto> \<lparr> fileName = f, version = ''0'', kind = k \<rparr>)
      else sharedFileInfoMap m)"
  by (auto simp add: addScript_def Let_def)

lemma addScript_virtual:
  "virtualVueTemplateFileInfoMap (addScript u f k m) =
     (if isVirtualVueTemplateFile u f \<and> virtualVueTemplateFileInfoMap m f = None
      then (virtualVueTemplateFileInfoMap m)(f \<mapsto> \<lparr> fileName = f, version = ''0'', kind = k \<rparr>)
      else virtualVueTemplateFileInfoMap m)"
  by (auto simp add: addScript_def Let_def)

lemma addScript_keeps_shared:
  "sharedFileInfoMap m g = Some i \<Longrightarrow> sharedFileInfoMap (addScript u f k m) g = Some i"
  by (auto simp: addScript_shared)

lemma addScript_keeps_virtual:
  "virtualVueTemplateFileInfoMap m g = Some i \<Longrightarrow>
   virtualVueTemplateFileInfoMap (addScript u f k m) g = Some i"
  by (auto simp: addScript_virtual)

lemma addScripts_keeps_shared:
  "sharedFileInfoMap m g = Some i \<Longrightarrow> sharedFileInfoMap (addScripts u calls m) g = Some i"
  by (induction u calls m rule: addScripts.induct) (simp_all add: addScript_keeps_shared)

lemma addScripts_bridge:
  "sharedFileInfoMap (addScripts u calls (new_VueFileInfoManager b)) (bridge_fileName b) =
     Some \<lparr> fileName = bridge_fileName b, version = ''0'', kind = TS \<rparr>"
  by (rule addScripts_keeps_shared) (simp add: new_VueFileInfoManager_def)

lemma addScript_twice: "addScript u f k' (addScript u f k m) = addScript u f k m"
  by (simp add: addScript_def Let_def)

lemma addScript_present:
  assumes "isVueFile u f \<or> isVirtualVueFile u f \<longrightarrow> sharedFileInfoMap m f \<noteq> None"
    and "isVirtualVueTemplateFile u f \<longrightarrow> virtualVueTemplateFileInfoMap m f \<noteq> None"
  shows "addScript u f k m = m"
  using assms by (auto simp add: addScript_def Let_def)

lemma plain_get_ordinary:
  "name \<notin> set Object_prototype_members \<Longrightarrow>
   plain_get obj name = (case obj name of Some v \<Rightarrow> Own v | None \<Rightarrow> Missing)"
  by (simp add: plain_get_def split: option.splits)

lemma getScriptVersion_ordinary:
  assumes "f \<notin> set Object_prototype_members"
  shows "getScriptVersion m f =
           (case sharedFileInfoMap m f of
              Some i \<Rightarrow> Some (version i)
            | None \<Rightarrow>
                (case virtualVueTemplateFileInfoMap m f of
                   Some i \<Rightarrow> Some (version i)
                 | None \<Rightarrow> Some ''0''))"
  using assms by (simp add: getScriptVersion_def plain_get_ordinary split: option.splits)

lemma getScriptVersion_inherited:
  assumes "f \<in> set Object_prototype_members" and "sharedFileInfoMap m f = None"
  shows "getScriptVersion m f = None"
  using assms by (simp add: getScriptVersion_def plain_get_def)

text \<open>
  C6. A registry holds \<open>/w/a.vue\<close> in its persistent map and \<open>/w/a.vue.template\<close> in
  its transient map. For these the version lookup answers the stored versions, and for
  \<open>/w/b.ts\<close>, a key of neither map, it answers \<open>'0'\<close>. The names \<open>constructor\<close>,
  \<open>toString\<close> and \<open>__proto__\<close> are keys of neither map as well, and for them the
  lookup answers \<open>undefined\<close>, not \<open>'0'\<close>.
\<close>

theorem getScriptVersion_inherited_member:
  "sharedFileInfoMap sample_registry ''constructor'' = None \<and>
   virtualVueTemplateFileInfoMap sample_registry ''constructor'' = None \<and>
   getScriptVersion sample_registry ''constructor'' = None \<and>
   getScriptVersion sample_registry ''toString'' = None \<and>
   getScriptVersion sample_registry ''__proto__'' = None \<and>
   getScriptVersion (new_VueFileInfoManager sample_bridge) ''constructor'' = None \<and>
   getScriptVersion sample_registry ''/w/b.ts'' = Some ''0'' \<and>
   getScriptVersion sample_registry ''/w/a.vue'' = Some ''3'' \<and>
   getScriptVersion sample_registry ''/w/a.vue.template'' = Some ''7''"
  by (simp add: getScriptVersion_def plain_get_def Object_prototype_members_def
      sample_registry_def new_VueFileInfoManager_def sample_bridge_def)

lemma getScriptKind_ordinary:
  assumes "f \<notin> set Object_prototype_members"
  shows "getScriptKind m f =
           (case sharedFileInfoMap m f of
              Some i \<Rightarrow> (Some (kind i), [])
            | None \<Rightarrow>
                (case virtualVueTemplateFileInfoMap m f of
                   Some i \<Rightarrow> (Some (kind i), [])
                 | None \<Rightarrow> (Some JS, [''Can'' @ [CHR 0x27] @ ''t find ScriptKind for '' @ f])))"
  using assms by (simp add: getScriptKind_def plain_get_ordinary split: option.splits)

lemma getScriptKind_inherited:
  assumes "f \<in> set Object_prototype_members" and "sharedFileInfoMap m f = None"
  shows "getScriptKind m f = (None, [])"
  using assms by (simp add: getScriptKind_def plain_get_def)

lemma getScriptKind_bridge:
  "getScriptKind (addScripts u calls (new_VueFileInfoManager b)) (bridge_fileName b) = (Some TS, [])"
  by (simp add: getScriptKind_def plain_get_def addScripts_bridge)

text \<open>
  C7. In the same registry the kind lookup answers the stored kinds for \<open>/w/a.vue\<close> and
  \<open>/w/a.vue.template\<close>, TS for the bridging file of a registry built by the
  constructor and calls of \<open>addScript\<close>, and for \<open>/w/b.ts\<close>, a key of neither map, JS
  after logging the one line \<open>Can't find ScriptKind for /w/b.ts\<close>. For
  \<open>constructor\<close>, \<open>toString\<close> and \<open>__proto__\<close>, keys of neither map as well, it
  answers \<open>undefined\<close> and logs nothing.
\<close>

theorem getScriptKind_inherited_member:
  "sharedFileInfoMap sample_registry ''constructor'' = None \<and>
   virtualVueTemplateFileInfoMap sample_registry ''constructor'' = None \<and>
   getScriptKind sample_registry ''constructor'' = (None, []) \<and>
   getScriptKind sample_registry ''toString'' = (None, []) \<and>
   getScriptKind sample_registry ''__proto__'' = (None, []) \<and>
   getScriptKind sample_registry ''/w/b.ts'' =
     (Some JS, [''Can'' @ [CHR 0x27] @ ''t find ScriptKind for /w/b.ts'']) \<and>
   getScriptKind sample_registry ''/w/a.vue'' = (Some TS, []) \<and>
   getScriptKind sample_registry ''/w/a.vue.template'' = (Some JSX, []) \<and>
   getScriptKind
     (addScripts sample_util [(''/w/a.vue'', JS), (''vue-temp/vue-editor-bridge.ts'', JS)]
        (new_VueFileInfoManager sample_bridge))
     ''vue-temp/vue-editor-bridge.ts'' = (Some TS, [])"
  by (simp add: getScriptKind_def plain_get_def Object_prototype_members_def
      sample_registry_def new_VueFileInfoManager_def sample_bridge_def sample_util_def
      addScript_def endsWith_def Let_def)

text \<open>
  C8. Registration inserts a fresh entry with version \<open>'0'\<close> into the persistent map
  exactly when the name satisfies \<open>isVueFile\<close> or \<open>isVirtualVueFile\<close> and is not a key
  of that map, and into the transient map exactly when the name satisfies
  \<open>isVirtualVueTemplateFile\<close> and is not a key of that map. When the name is a key of
  every map whose pattern it matches, both maps are left as they are. No call changes an
  entry that is already stored (so no version ever changes), and registering a name a
  second time, with any kind, equals registering it once.
\<close>

theorem addScript_idempotent:
  "sharedFileInfoMap (addScript u f k m) =
     (if (isVueFile u f \<or> isVirtualVueFile u f) \<and> sharedFileInfoMap m f = None
      then (sharedFileInfoMap m)(f \<mapsto> \<lparr> fileName = f, version = ''0'', kind = k \<rparr>)
      else sharedFileInfoMap m) \<and>
   virtualVueTemplateFileInfoMap (addScript u f k m) =
     (if isVirtualVueTemplateFile u f \<and> virtualVueTemplateFileInfoMap m f = None
      then (virtualVueTemplateFileInfoMap m)(f \<mapsto> \<lparr> fileName = f, version = ''0'', kind = k \<rparr>)
      else virtualVueTemplateFileInfoMap m) \<and>
   ((isVueFile u f \<or> isVirtualVueFile u f \<longrightarrow> sharedFileInfoMap m f \<noteq> None) \<and>
    (isVirtualVueTemplateFile u f \<longrightarrow> virtualVueTemplateFileInfoMap m f \<noteq> None) \<longrightarrow>
      addScript u f k m = m) \<and>
   (\<forall>g i. sharedFileInfoMap m g = Some i \<longrightarrow> sharedFileInfoMap (addScript u f k m) g = Some i) \<and>
   (\<forall>g i. virtualVueTemplateFileInfoMap m g = Some i \<longrightarrow>
      virtualVueTemplateFileInfoMap (addScript u f k m) g = Some i) \<and>
   addScript u f k' (addScript u f k m) = addScript u f k m"
proof -
  have "(isVueFile u f \<or> isVirtualVueFile u f \<longrightarrow> sharedFileInfoMap m f \<noteq> None) \<and>
        (isVirtualVueTemplateFile u f \<longrightarrow> virtualVueTemplateFileInfoMap m f \<noteq> None) \<longrightarrow>
        addScript u f k m = m"
    using addScript_present [of u f m k] by blast
  then show ?thesis
    using addScript_shared [of u f k m] addScript_virtual [of u f k m]
      addScript_keeps_shared [of m _ _ u f k] addScript_keeps_virtual [of m _ _ u f k]
      addScript_twice [of u f k' k m]
    by blast
qed

theorem addScript_idempotent_witness:
  "sharedFileInfoMap (addScript sample_util ''/w/c.vue'' JS sample_registry) ''/w/c.vue'' =
     Some \<lparr> fileName = ''/w/c.vue'', version = ''0'', kind = JS \<rparr> \<and>
   virtualVueTemplateFileInfoMap (addScript sample_util ''/w/c.vue'' JS sample_registry) =
     virtualVueTemplateFileInfoMap sample_registry \<and>
   isVueFile sample_util ''/w/a.vue'' \<and> sharedFileInfoMap sample_registry ''/w/a.vue'' \<noteq> None \<and>
   \<not> isVirtualVueTemplateFile sample_util ''/w/a.vue'' \<and>
   addScript sample_util ''/w/a.vue'' JS sample_registry = sample_registry \<and>
   sharedFileInfoMap (addScript sample_util ''/w/c.vue'' JS sample_registry) ''/w/a.vue'' =
     Some \<lparr> fileName = ''/w/a.vue'', version = ''3'', kind = TS \<rparr> \<and>
   virtualVueTemplateFileInfoMap (addScript sample_util ''/w/c.vue.template'' JS sample_registry)
       ''/w/a.vue.template'' =
     Some \<lparr> fileName = ''/w/a.vue.template'', version = ''7'', kind = JSX \<rparr> \<and>
   addScript sample_util ''/w/c.vue'' TS (addScript sample_util ''/w/c.vue'' JS sample_registry) =
     addScript sample_util ''/w/c.vue'' JS sample_registry"
  using addScript_idempotent [of sample_util "''/w/c.vue''" JS sample_registry TS]
    addScript_idempotent [of sample_util "''/w/a.vue''" JS sample_registry TS]
    addScript_idempotent [of sample_util "''/w/c.vue.template''" JS sample_registry TS]
  by (simp add: sample_registry_def sample_util_def endsWith_def)

section \<open>Properties of the service's update path\<close>

lemma update_always_throws:
  "updateCurrentTextDocument ps st doc = Inl (ReferenceError ''files'') \<or>
   updateCurrentTextDocument ps st doc = Inl (ReferenceError ''isVirtualVueTemplateFile'')"
  by (simp add: updateCurrentTextDocument_def Let_def)

lemma state_after_same: "state_after ps st doc = st"
  using update_always_throws [of ps st doc] by (auto simp: state_after_def)

lemma states_after_same: "states_after ps st ds = st"
  by (induction ds arbitrary: st) (simp_all add: state_after_same)

text \<open>
  C2. A fresh service is given a document of \<open>/w/a.vue\<close> and then its next edit, with
  another text and the next version. Both calls throw a ReferenceError at \<open>files\<close>,
  and the file's counter is 0 before, between and after them: it does not increase. A
  document whose path ends in neither \<open>.vue\<close> nor \<open>.vue.template\<close> throws at
  \<open>isVirtualVueTemplateFile\<close>.
\<close>

theorem update_throws_before_versions:
  "docVersion sample_vue_doc < docVersion sample_vue_doc_v2 \<and>
   getText sample_vue_doc \<noteq> getText sample_vue_doc_v2 \<and>
   updateCurrentTextDocument sample_paths new_service_state sample_vue_doc =
     Inl (ReferenceError ''files'') \<and>
   version_or_0 (state_after sample_paths new_service_state sample_vue_doc) ''/w/a.vue'' = 0 \<and>
   updateCurrentTextDocument sample_paths
       (state_after sample_paths new_service_state sample_vue_doc) sample_vue_doc_v2 =
     Inl (ReferenceError ''files'') \<and>
   version_or_0
     (states_after sample_paths new_service_state [sample_vue_doc, sample_vue_doc_v2])
     ''/w/a.vue'' = 0 \<and>
   updateCurrentTextDocument sample_paths new_service_state sample_ts_doc =
     Inl (ReferenceError ''isVirtualVueTemplateFile'')"
  by (simp add: updateCurrentTextDocument_def state_after_def Let_def version_or_0_def
      new_service_state_def sample_paths_def sample_vue_doc_def sample_vue_doc_v2_def
      sample_ts_doc_def TextDocument_create_def endsWith_def)

section \<open>Properties of the language service host\<close>

lemma resolve_bridge:
  "resolveModuleName1 env b u sd cf (bridge_moduleName b) =
     Some \<lparr> resolvedFileName = bridge_fileName b, extension = Ts \<rparr>"
  by (simp add: resolveModuleName1_def)

text \<open>
  C4. \<open>resolveModuleNames\<close> answers one entry per name, and at every position whose name
  is the bridging module's name the entry is the bridging file with extension Ts,
  whatever the containing file, the open documents, the file system and the other names.
\<close>

theorem resolveModuleNames_bridge:
  "length (resolveModuleNames env b u sd names cf) = length names \<and>
   (\<forall>i < length names. names ! i = bridge_moduleName b \<longrightarrow>
      resolveModuleNames env b u sd names cf ! i =
        Some \<lparr> resolvedFileName = bridge_fileName b, extension = Ts \<rparr>)"
  by (simp add: resolveModuleNames_def resolve_bridge)

theorem resolveModuleNames_bridge_witness:
  "(1::nat) < length [''./a.vue'', ''vue-editor-bridge''] \<and>
   [''./a.vue'', ''vue-editor-bridge''] ! 1 = bridge_moduleName sample_bridge \<and>
   resolveModuleNames sample_host_env sample_bridge sample_util Map.empty
     [''./a.vue'', ''vue-editor-bridge''] ''/w/b.vue'' ! 1 =
     Some \<lparr> resolvedFileName = ''vue-temp/vue-editor-bridge.ts'', extension = Ts \<rparr>"
  using resolveModuleNames_bridge [of sample_host_env sample_bridge sample_util Map.empty
      "[''./a.vue'', ''vue-editor-bridge'']" "''/w/b.vue''"]
  by (simp add: sample_bridge_def)

lemma getScriptSnapshot_unopened_vue:
  assumes "f \<noteq> bridge_fileName b" and "isVueFile u f"
    and "sd (getNormalizedFileFsPath env f) = None"
  shows "getScriptSnapshot env b u h sd f =
           parseVueScript env
             (case sys_readFile env (getNormalizedFileFsPath env f) of None \<Rightarrow> [] | Some t \<Rightarrow> t)"
  using assms by (simp add: getScriptSnapshot_def Let_def)

lemma parseVueScript_placeholder:
  "parseVueScript env t =
     (if script_region_text env t = [] then ''export default {};'' else script_region_text env t)"
  by (simp add: parseVueScript_def Let_def)

lemma no_placeholder_for_nonempty_file:
  assumes "\<forall>t. length (script_region_text env t) = length t"
    and "f \<noteq> bridge_fileName b" and "isVueFile u f"
    and "sd (getNormalizedFileFsPath env f) = None"
    and "sys_readFile env (getNormalizedFileFsPath env f) = Some t" and "t \<noteq> []"
  shows "getScriptSnapshot env b u h sd f = script_region_text env t"
proof -
  have "length (script_region_text env t) = length t"
    using assms(1) by blast
  with \<open>t \<noteq> []\<close> have "script_region_text env t \<noteq> []"
    by auto
  then show ?thesis
    using assms(2-5) by (simp add: getScriptSnapshot_unopened_vue parseVueScript_placeholder)
qed

text \<open>
  C9. Four composite files, none of them open in the editor, are requested as script
  snapshots. The text is read from disk and the script region extracted from it. For
  \<open>/w/t.vue\<close>, whose text is \<open><template></template>\<close> with no script region, the
  extraction answers that text overwritten by spaces, and the snapshot is those 21
  spaces, not \<open>export default {};\<close>; likewise the 17 spaces for \<open>/w/e.vue\<close>, whose
  script region is empty. The placeholder is served for the empty file \<open>/w/b.vue\<close> and
  for \<open>/w/missing.vue\<close>, which cannot be read.
\<close>

theorem getScriptSnapshot_no_script_region:
  "isVueFile sample_util ''/w/t.vue'' \<and>
   sys_readFile sample_host_env ''/w/t.vue'' = Some ''<template></template>'' \<and>
   script_region_text sample_host_env ''<template></template>'' = replicate 21 (CHR '' '') \<and>
   getScriptSnapshot sample_host_env sample_bridge sample_util
     (createLanguageServiceHost sample_host_env False ''/w'') Map.empty ''/w/t.vue'' =
     replicate 21 (CHR '' '') \<and>
   getScriptSnapshot sample_host_env sample_bridge sample_util
     (createLanguageServiceHost sample_host_env False ''/w'') Map.empty ''/w/t.vue'' \<noteq>
     ''export default {};'' \<and>
   sys_readFile sample_host_env ''/w/e.vue'' = Some ''<script></script>'' \<and>
   getScriptSnapshot sample_host_env sample_bridge sample_util
     (createLanguageServiceHost sample_host_env False ''/w'') Map.empty ''/w/e.vue'' =
     replicate 17 (CHR '' '') \<and>
   getScriptSnapshot sample_host_env sample_bridge sample_util
     (createLanguageServiceHost sample_host_env False ''/w'') Map.empty ''/w/b.vue'' =
     ''export default {};'' \<and>
   getScriptSnapshot sample_host_env sample_bridge sample_util
     (createLanguageServiceHost sample_host_env False ''/w'') Map.empty ''/w/missing.vue'' =
     ''export default {};'' \<and>
   getScriptSnapshot sample_host_env sample_bridge sample_util
     (createLanguageServiceHost sample_host_env False ''/w'') Map.empty ''/w/c.vue'' =
     ''        export default {a:1}         ''"
  by (simp add: getScriptSnapshot_def parseVueScript_def Let_def getNormalizedFileFsPath_def
      sample_host_env_def sample_bridge_def sample_util_def endsWith_def blank_def
      eval_nat_numeral)

lemma and_then_Inr: "and_then r f = Inr v \<Longrightarrow> \<exists>x. r = Inr x \<and> f x = Inr v"
  by (cases r) (simp_all add: and_then_def)

lemma probe_packageJSON_Inr:
  assumes "probe_packageJSON env w = Inr j"
  shows "(findConfigFile env w ''package.json'' = None \<and> j = JUndefined) \<or>
         (findConfigFile env w ''package.json'' = Some [] \<and> j = JStr []) \<or>
         (\<exists>p t. findConfigFile env w ''package.json'' = Some p \<and> p \<noteq> [] \<and>
                 sys_readFile env p = Some t \<and> JSON_parse env t = Some j)"
  using assms by (auto simp: probe_packageJSON_def split: option.splits if_splits)

lemma probe_vueStr_undefined: "probe_vueStr JUndefined = Inl TypeError"
  by (simp add: probe_vueStr_def and_then_def)

lemma probe_vueStr_empty: "probe_vueStr (JStr []) = Inl TypeError"
  by (simp add: probe_vueStr_def and_then_def)

lemma probe_vueDep_Inr: "probe_vueDep v = Inr d \<Longrightarrow> \<exists>s. v = JStr s \<and> regex_match s = Some d"
  by (cases v) (auto simp: probe_vueDep_def split: option.splits)

lemma probe_body_Inr:
  assumes "probe_body env w = Inr r"
  shows "\<exists>p t j s d. findConfigFile env w ''package.json'' = Some p \<and> p \<noteq> [] \<and>
           sys_readFile env p = Some t \<and> JSON_parse env t = Some j \<and>
           probe_vueStr j = Inr (JStr s) \<and> regex_match s = Some d \<and>
           r = parseFloat_below_2_5 env d"
proof -
  from assms obtain j where j: "probe_packageJSON env w = Inr j"
    and 1: "and_then (probe_vueStr j) (\<lambda>vueStr. and_then (probe_vueDep vueStr)
              (\<lambda>vueDep. Inr (parseFloat_below_2_5 env vueDep))) = Inr r"
    unfolding probe_body_def by (blast dest: and_then_Inr)
  from 1 obtain v where v: "probe_vueStr j = Inr v"
    and 2: "and_then (probe_vueDep v) (\<lambda>vueDep. Inr (parseFloat_below_2_5 env vueDep)) = Inr r"
    by (blast dest: and_then_Inr)
  from 2 obtain d where d: "probe_vueDep v = Inr d" and r: "r = parseFloat_below_2_5 env d"
    by (auto dest: and_then_Inr)
  from d obtain s where s: "v = JStr s" "regex_match s = Some d"
    by (blast dest: probe_vueDep_Inr)
  from j v have "\<exists>p t. findConfigFile env w ''package.json'' = Some p \<and> p \<noteq> [] \<and>
                 sys_readFile env p = Some t \<and> JSON_parse env t = Some j"
    using probe_packageJSON_Inr [OF j] probe_vueStr_undefined probe_vueStr_empty by auto
  with v s r show ?thesis by blast
qed

lemma probe_body_found:
  assumes "findConfigFile env w ''package.json'' = Some p" "p \<noteq> []" "sys_readFile env p = Some t"
    "JSON_parse env t = Some j" "probe_vueStr j = Inr (JStr s)" "regex_match s = Some d"
  shows "probe_body env w = Inr (parseFloat_below_2_5 env d)"
  using assms by (simp add: probe_body_def probe_packageJSON_def probe_vueDep_def and_then_def)

lemma new_version_iff:
  "\<not> isUsingOldVueVersion env w \<longleftrightarrow>
     (\<exists>p t j s d. findConfigFile env w ''package.json'' = Some p \<and> p \<noteq> [] \<and>
        sys_readFile env p = Some t \<and> JSON_parse env t = Some j \<and>
        probe_vueStr j = Inr (JStr s) \<and> regex_match s = Some d \<and>
        \<not> parseFloat_below_2_5 env d)"
proof
  assume "\<not> isUsingOldVueVersion env w"
  then obtain r where "probe_body env w = Inr r" "\<not> r"
    by (auto simp: isUsingOldVueVersion_def split: sum.splits)
  then show "\<exists>p t j s d. findConfigFile env w ''package.json'' = Some p \<and> p \<noteq> [] \<and>
        sys_readFile env p = Some t \<and> JSON_parse env t = Some j \<and>
        probe_vueStr j = Inr (JStr s) \<and> regex_match s = Some d \<and>
        \<not> parseFloat_below_2_5 env d"
    using probe_body_Inr [of env w r] by blast
next
  assume "\<exists>p t j s d. findConfigFile env w ''package.json'' = Some p \<and> p \<noteq> [] \<and>
        sys_readFile env p = Some t \<and> JSON_parse env t = Some j \<and>
        probe_vueStr j = Inr (JStr s) \<and> regex_match s = Some d \<and>
        \<not> parseFloat_below_2_5 env d"
  then obtain p t j s d where f: "findConfigFile env w ''package.json'' = Some p" "p \<noteq> []"
    "sys_readFile env p = Some t" "JSON_parse env t = Some j" "probe_vueStr j = Inr (JStr s)"
    "regex_match s = Some d" and n: "\<not> parseFloat_below_2_5 env d"
    by blast
  from f have "probe_body env w = Inr (parseFloat_below_2_5 env d)"
    by (rule probe_body_found)
  with n show "\<not> isUsingOldVueVersion env w"
    by (simp add: isUsingOldVueVersion_def)
qed

lemma old_missing: "findConfigFile env w ''package.json'' = None \<Longrightarrow> isUsingOldVueVersion env w"
  by (simp add: isUsingOldVueVersion_def probe_body_def probe_packageJSON_def probe_vueStr_def
      and_then_def)

lemma old_unreadable:
  "findConfigFile env w ''package.json'' = Some p \<Longrightarrow> sys_readFile env p = None \<Longrightarrow>
   isUsingOldVueVersion env w"
  by (simp add: isUsingOldVueVersion_def probe_body_def probe_packageJSON_def probe_vueStr_def
      and_then_def)

lemma old_unparsable:
  "findConfigFile env w ''package.json'' = Some p \<Longrightarrow> sys_readFile env p = Some t \<Longrightarrow>
   JSON_parse env t = None \<Longrightarrow> isUsingOldVueVersion env w"
  by (simp add: isUsingOldVueVersion_def probe_body_def probe_packageJSON_def probe_vueStr_def
      and_then_def)

lemma old_no_version:
  assumes 1: "probe_packageJSON env w = Inr j"
    and 2: "\<forall>s d. probe_vueStr j = Inr (JStr s) \<longrightarrow> regex_match s \<noteq> Some d"
  shows "isUsingOldVueVersion env w"
proof (cases "probe_body env w")
  case (Inl e)
  then show ?thesis by (simp add: isUsingOldVueVersion_def)
next
  case (Inr r)
  then obtain p t j' s d where "findConfigFile env w ''package.json'' = Some p" "p \<noteq> []"
    "sys_readFile env p = Some t" "JSON_parse env t = Some j'"
    and v: "probe_vueStr j' = Inr (JStr s)" "regex_match s = Some d"
    using probe_body_Inr [of env w r] by blast
  then have "probe_packageJSON env w = Inr j'"
    by (simp add: probe_packageJSON_def)
  with 1 have "j' = j" by simp
  with v 2 show ?thesis by blast
qed

lemma old_exception: "probe_body env w = Inl e \<Longrightarrow> isUsingOldVueVersion env w"
  by (simp add: isUsingOldVueVersion_def)

lemma snapshot_bridge:
  "getScriptSnapshot env b u (createLanguageServiceHost env incl w) sd (bridge_fileName b) =
     (if isUsingOldVueVersion env w then bridge_oldContent b else bridge_content b)"
  by (simp add: getScriptSnapshot_def createLanguageServiceHost_def)

text \<open>
  C10. The probe answers "old" whenever its body throws; in particular when no
  \<open>package.json\<close> is found, when it cannot be read, when it does not parse, and when the
  parsed value yields no vue dependency string in which the regular expression finds a
  version. It answers "new" exactly when a \<open>package.json\<close> is found, read and parsed,
  \<open>dependencies.vue || devDependencies.vue\<close> is a string, the regular expression finds
  a version in it, and that version, parsed, is not below 2.5. The host computes the
  probe once, and its snapshot of the bridging file is the old content when the probe
  answered "old" and the new content otherwise.
\<close>

theorem isUsingOldVueVersion_fails_closed:
  "(\<forall>e. probe_body env w = Inl e \<longrightarrow> isUsingOldVueVersion env w) \<and>
   (findConfigFile env w ''package.json'' = None \<longrightarrow> isUsingOldVueVersion env w) \<and>
   (\<forall>p. findConfigFile env w ''package.json'' = Some p \<and> sys_readFile env p = None \<longrightarrow>
      isUsingOldVueVersion env w) \<and>
   (\<forall>p t. findConfigFile env w ''package.json'' = Some p \<and> sys_readFile env p = Some t \<and>
      JSON_parse env t = None \<longrightarrow> isUsingOldVueVersion env w) \<and>
   (\<forall>j. probe_packageJSON env w = Inr j \<and>
      (\<forall>s d. probe_vueStr j = Inr (JStr s) \<longrightarrow> regex_match s \<noteq> Some d) \<longrightarrow>
      isUsingOldVueVersion env w) \<and>
   (\<not> isUsingOldVueVersion env w \<longleftrightarrow>
      (\<exists>p t j s d. findConfigFile env w ''package.json'' = Some p \<and> p \<noteq> [] \<and>
         sys_readFile env p = Some t \<and> JSON_parse env t = Some j \<and>
         probe_vueStr j = Inr (JStr s) \<and> regex_match s = Some d \<and>
         \<not> parseFloat_below_2_5 env d)) \<and>
   getScriptSnapshot env b u (createLanguageServiceHost env incl w) sd (bridge_fileName b) =
     (if isUsingOldVueVersion env w then bridge_oldContent b else bridge_content b)"
proof -
  have 1: "\<forall>e. probe_body env w = Inl e \<longrightarrow> isUsingOldVueVersion env w"
    using old_exception [of env w] by blast
  have 2: "findConfigFile env w ''package.json'' = None \<longrightarrow> isUsingOldVueVersion env w"
    using old_missing [of env w] by blast
  have 3: "\<forall>p. findConfigFile env w ''package.json'' = Some p \<and> sys_readFile env p = None \<longrightarrow>
      isUsingOldVueVersion env w"
    using old_unreadable [of env w] by blast
  have 4: "\<forall>p t. findConfigFile env w ''package.json'' = Some p \<and> sys_readFile env p = Some t \<and>
      JSON_parse env t = None \<longrightarrow> isUsingOldVueVersion env w"
    using old_unparsable [of env w] by blast
  have 5: "\<forall>j. probe_packageJSON env w = Inr j \<and>
      (\<forall>s d. probe_vueStr j = Inr (JStr s) \<longrightarrow> regex_match s \<noteq> Some d) \<longrightarrow>
      isUsingOldVueVersion env w"
    using old_no_version [of env w] by blast
  show ?thesis
    using 1 2 3 4 5 new_version_iff [of env w] snapshot_bridge [of env b u incl w sd]
    by (intro conjI) assumption+
qed

theorem isUsingOldVueVersion_fails_closed_witness:
  "probe_body sample_host_env ''/elsewhere'' = Inl TypeError \<and>
   findConfigFile sample_host_env ''/elsewhere'' ''package.json'' = None \<and>
   isUsingOldVueVersion sample_host_env ''/elsewhere'' \<and>
   findConfigFile sample_host_env ''/unread'' ''package.json'' = Some ''/unread/package.json'' \<and>
   sys_readFile sample_host_env ''/unread/package.json'' = None \<and>
   isUsingOldVueVersion sample_host_env ''/unread'' \<and>
   sys_readFile sample_host_env ''/bad/package.json'' = Some ''{dependencies:'' \<and>
   JSON_parse sample_host_env ''{dependencies:'' = None \<and>
   isUsingOldVueVersion sample_host_env ''/bad'' \<and>
   probe_vueStr (JObj [(''dependencies'', JObj []), (''devDependencies'', JObj [])]) = Inr JUndefined \<and>
   isUsingOldVueVersion sample_host_env ''/none'' \<and>
   isUsingOldVueVersion sample_host_env ''/old'' \<and>
   \<not> isUsingOldVueVersion sample_host_env ''/w'' \<and>
   getScriptSnapshot sample_host_env sample_bridge sample_util
     (createLanguageServiceHost sample_host_env False ''/w'') Map.empty
     ''vue-temp/vue-editor-bridge.ts'' = ''new content'' \<and>
   getScriptSnapshot sample_host_env sample_bridge sample_util
     (createLanguageServiceHost sample_host_env False ''/old'') Map.empty
     ''vue-temp/vue-editor-bridge.ts'' = ''old content''"
proof -
  have probes:
    "probe_body sample_host_env ''/elsewhere'' = Inl TypeError"
    "probe_body sample_host_env ''/unread'' = Inl SyntaxError"
    "probe_body sample_host_env ''/bad'' = Inl SyntaxError"
    "probe_body sample_host_env ''/none'' = Inl TypeError"
    "probe_body sample_host_env ''/old'' = Inr True"
    "probe_body sample_host_env ''/w'' = Inr False"
    by (simp_all add: probe_body_def probe_packageJSON_def probe_vueStr_def probe_vueDep_def
        and_then_def sample_host_env_def match_here_def is_digit_def decimal_below_2_5_def)
  have "probe_vueStr (JObj [(''dependencies'', JObj []), (''devDependencies'', JObj [])]) =
          Inr JUndefined"
    by (simp add: probe_vueStr_def and_then_def)
  moreover have "findConfigFile sample_host_env ''/elsewhere'' ''package.json'' = None"
    "findConfigFile sample_host_env ''/unread'' ''package.json'' = Some ''/unread/package.json''"
    "sys_readFile sample_host_env ''/unread/package.json'' = None"
    "sys_readFile sample_host_env ''/bad/package.json'' = Some ''{dependencies:''"
    "JSON_parse sample_host_env ''{dependencies:'' = None"
    by (simp_all add: sample_host_env_def)
  ultimately show ?thesis
    using probes
      isUsingOldVueVersion_fails_closed [of sample_host_env "''/elsewhere''" sample_bridge sample_util
        False Map.empty]
      isUsingOldVueVersion_fails_closed [of sample_host_env "''/w''" sample_bridge sample_util
        False Map.empty]
      isUsingOldVueVersion_fails_closed [of sample_host_env "''/old''" sample_bridge sample_util
        False Map.empty]
    by (simp add: isUsingOldVueVersion_def sample_bridge_def)
qed

section \<open>Properties of the interpolation mode\<close>

text \<open>
  C1. When the guard reads the configuration's flag as false, each of the five
  operations returns its empty result and the state it was given: no document is
  projected and no query is added to the trace of the template engine.
\<close>

theorem disabled_short_circuit:
  assumes "\<not> templateInterpolationService (config ms)"
  shows "doValidation env ms document = ([], ms) \<and>
         doHover env ms document position = (\<lparr> contents = [], hover_range = None \<rparr>, ms) \<and>
         findDefinition env ms document position = (Inr [], ms) \<and>
         findReferences env ms document position = (Inr [], ms) \<and>
         getCodeActions env ms document rng context = ([], ms)"
  using assms
  by (simp add: doValidation_def doHover_def findDefinition_def findReferences_def locate_def
      getCodeActions_def)

theorem disabled_short_circuit_witness:
  "\<not> templateInterpolationService (config (configure disabled_config new_mode_state)) \<and>
   doValidation sample_mode_env (configure disabled_config new_mode_state) sample_vue_doc =
     ([], configure disabled_config new_mode_state) \<and>
   doHover sample_mode_env (configure disabled_config new_mode_state) sample_vue_doc
       \<lparr> line = 0, character = 4 \<rparr> =
     (\<lparr> contents = [], hover_range = None \<rparr>, configure disabled_config new_mode_state) \<and>
   findDefinition sample_mode_env (configure disabled_config new_mode_state) sample_vue_doc
       \<lparr> line = 0, character = 4 \<rparr> =
     (Inr [], configure disabled_config new_mode_state) \<and>
   findReferences sample_mode_env (configure disabled_config new_mode_state) sample_vue_doc
       \<lparr> line = 0, character = 4 \<rparr> =
     (Inr [], configure disabled_config new_mode_state) \<and>
   getCodeActions sample_mode_env (configure disabled_config new_mode_state) sample_vue_doc
       (Range_create \<lparr> line = 0, character = 4 \<rparr> \<lparr> line = 0, character = 5 \<rparr>)
       \<lparr> context_diagnostics = [] \<rparr> =
     ([], configure disabled_config new_mode_state) \<and>
   engine_calls (configure disabled_config new_mode_state) = [] \<and>
   fst (doValidation sample_mode_env new_mode_state sample_vue_doc) \<noteq> []"
proof -
  have off: "\<not> templateInterpolationService (config (configure disabled_config new_mode_state))"
    by (simp add: templateInterpolationService_def lodash_get_def configure_def disabled_config_def)
  have on: "templateInterpolationService (config new_mode_state)"
    by (simp add: templateInterpolationService_def lodash_get_def new_mode_state_def)
  have "fst (doValidation sample_mode_env new_mode_state sample_vue_doc) \<noteq> []"
    using on by (simp add: doValidation_def Let_def sample_mode_env_def)
  moreover have "engine_calls (configure disabled_config new_mode_state) = []"
    by (simp add: configure_def new_mode_state_def)
  ultimately show ?thesis
    using off
      disabled_short_circuit [OF off, of sample_mode_env sample_vue_doc
        "\<lparr> line = 0, character = 4 \<rparr>"
        "Range_create \<lparr> line = 0, character = 4 \<rparr> \<lparr> line = 0, character = 5 \<rparr>"
        "\<lparr> context_diagnostics = [] \<rparr>"]
    by simp
qed

lemma doValidation_result:
  "fst (doValidation env ms document) =
     (if templateInterpolationService (config ms) \<and>
         languageServiceIncludesFile env (service (project_template env ms document))
           (uri (template_doc document))
      then map (lsp_diagnostic env (template_doc document)
                  (templateSourceMap env (service (project_template env ms document))))
             (getSemanticDiagnostics env (service (project_template env ms document))
                (getFileFsPath (env_paths env) (uri (template_doc document))))
      else [])"
  by (simp add: doValidation_def Let_def)

lemma doValidation_calls:
  "engine_calls (snd (doValidation env ms document)) =
     engine_calls ms @
       (if \<not> templateInterpolationService (config ms) then []
        else if \<not> languageServiceIncludesFile env (service (project_template env ms document))
                   (uri (template_doc document))
        then [IncludesFile (uri (template_doc document))]
        else [IncludesFile (uri (template_doc document)),
              GetSemanticDiagnostics (getFileFsPath (env_paths env) (uri (template_doc document)))])"
  by (simp add: doValidation_def Let_def project_template_def called_def)

text \<open>
  C3. The diagnostics that validation returns are the images of the diagnostics that the
  engine's semantic query returns for the template file, and nothing else: each has
  severity Error, and for some diagnostic of that query it has its code, its message
  flattened with a newline, and its span mapped back through the template source map.
  The queries validation adds to the trace include no syntactic query.
\<close>

theorem doValidation_semantic_only:
  "fst (doValidation env ms document) =
     (if templateInterpolationService (config ms) \<and>
         languageServiceIncludesFile env (service (project_template env ms document))
           (uri (template_doc document))
      then map (lsp_diagnostic env (template_doc document)
                  (templateSourceMap env (service (project_template env ms document))))
             (getSemanticDiagnostics env (service (project_template env ms document))
                (getFileFsPath (env_paths env) (uri (template_doc document))))
      else []) \<and>
   (\<forall>d \<in> set (fst (doValidation env ms document)).
      severity d = Error \<and>
      (\<exists>raw \<in> set (getSemanticDiagnostics env (service (project_template env ms document))
                      (getFileFsPath (env_paths env) (uri (template_doc document)))).
         code d = ts_code raw \<and>
         message d = flattenDiagnosticMessageText env (messageText raw) [CHR 0x0A] \<and>
         diag_range d =
           mapBackRange env (template_doc document) (ts_span raw)
             (templateSourceMap env (service (project_template env ms document))))) \<and>
   (\<exists>cs. engine_calls (snd (doValidation env ms document)) = engine_calls ms @ cs \<and>
         (\<forall>f. GetSyntacticDiagnostics f \<notin> set cs))"
proof (intro conjI)
  show "fst (doValidation env ms document) =
     (if templateInterpolationService (config ms) \<and>
         languageServiceIncludesFile env (service (project_template env ms document))
           (uri (template_doc document))
      then map (lsp_diagnostic env (template_doc document)
                  (templateSourceMap env (service (project_template env ms document))))
             (getSemanticDiagnostics env (service (project_template env ms document))
                (getFileFsPath (env_paths env) (uri (template_doc document))))
      else [])"
    by (rule doValidation_result)
  show "\<forall>d \<in> set (fst (doValidation env ms document)).
      severity d = Error \<and>
      (\<exists>raw \<in> set (getSemanticDiagnostics env (service (project_template env ms document))
                      (getFileFsPath (env_paths env) (uri (template_doc document)))).
         code d = ts_code raw \<and>
         message d = flattenDiagnosticMessageText env (messageText raw) [CHR 0x0A] \<and>
         diag_range d =
           mapBackRange env (template_doc document) (ts_span raw)
             (templateSourceMap env (service (project_template env ms document))))"
    by (auto simp: doValidation_result lsp_diagnostic_def)
  show "\<exists>cs. engine_calls (snd (doValidation env ms document)) = engine_calls ms @ cs \<and>
         (\<forall>f. GetSyntacticDiagnostics f \<notin> set cs)"
    by (simp add: doValidation_calls)
qed

theorem doValidation_semantic_only_witness:
  "fst (doValidation sample_mode_env new_mode_state sample_vue_doc) =
     [\<lparr> diag_range = Range_create \<lparr> line = 0, character = 4 \<rparr> \<lparr> line = 0, character = 5 \<rparr>,
        severity = Error, message = ''Cannot find name x.'', code = 2304, source = ''Vetur'' \<rparr>] \<and>
   getSemanticDiagnostics sample_mode_env
       (service (project_template sample_mode_env new_mode_state sample_vue_doc))
       ''/w/a.vue.template'' =
     [\<lparr> ts_span = \<lparr> span_start = 14, span_length = 1 \<rparr>,
        messageText = MessageString ''Cannot find name x.'', ts_code = 2304 \<rparr>] \<and>
   engine_calls (snd (doValidation sample_mode_env new_mode_state sample_vue_doc)) =
     [IncludesFile ''file:///w/a.vue.template'', GetSemanticDiagnostics ''/w/a.vue.template'']"
proof -
  have on: "templateInterpolationService (config new_mode_state)"
    by (simp add: templateInterpolationService_def lodash_get_def new_mode_state_def)
  have calls: "engine_calls (snd (doValidation sample_mode_env new_mode_state sample_vue_doc)) =
     [IncludesFile ''file:///w/a.vue.template'', GetSemanticDiagnostics ''/w/a.vue.template'']"
    using on
    by (simp add: doValidation_calls)
       (simp add: sample_mode_env_def template_doc_def sample_vue_doc_def TextDocument_create_def
          sample_paths_def new_mode_state_def)
  show ?thesis
    using on calls doValidation_semantic_only [of sample_mode_env new_mode_state sample_vue_doc]
    by (simp add: sample_mode_env_def lsp_diagnostic_def Range_create_def)
qed

lemma collect_locations_other_file:
  assumes "span_fileName r \<noteq> f" and "program (span_fileName r) = Some fullText"
  shows "collect_locations env program document f sm (r # rs) results =
           collect_locations env program document f sm rs
             (results @
                [\<lparr> loc_uri = span_fileName r,
                   loc_range =
                     Range_create
                       (positionAt env (TextDocument_create (span_fileName r) ''vue'' 0 fullText)
                          (span_start (textSpan r)))
                       (positionAt env (TextDocument_create (span_fileName r) ''vue'' 0 fullText)
                          (span_start (textSpan r) + span_length (textSpan r))) \<rparr>])"
  using assms
  by (simp add: and_then_def getSourceDoc_def convertRange_def TextDocument_create_def)

lemma collect_locations_unresolved:
  assumes "\<exists>r \<in> set found. span_fileName r \<noteq> f \<and> program (span_fileName r) = None"
  shows "collect_locations env program document f sm found results = Inl TypeError"
  using assms
proof (induction found arbitrary: results)
  case Nil
  then show ?case by simp
next
  case (Cons r rs)
  show ?case
  proof (cases "span_fileName r = f")
    case True
    with Cons.prems have "\<exists>r \<in> set rs. span_fileName r \<noteq> f \<and> program (span_fileName r) = None"
      by auto
    with True show ?thesis by (simp add: and_then_def Cons.IH)
  next
    case False
    show ?thesis
    proof (cases "program (span_fileName r)")
      case None
      with False show ?thesis by (simp add: and_then_def getSourceDoc_def)
    next
      case (Some t)
      with Cons.prems have "\<exists>r \<in> set rs. span_fileName r \<noteq> f \<and> program (span_fileName r) = None"
        by auto
      with False Some show ?thesis by (simp add: and_then_def getSourceDoc_def Cons.IH)
    qed
  qed
qed

text \<open>
  C5. The engine answers two definitions, the first in \<open>/w/lib.ts\<close>, which its program
  holds, the second in \<open>/w/gone.ts\<close>, which it does not. \<open>findDefinition\<close> does not
  drop the second and return the location of the first: it throws a TypeError. The
  reference query answers the first span only, and \<open>findReferences\<close> returns its
  location: the file's own path, and the range of the span's offsets in that file.
\<close>

theorem findDefinition_unresolved_raises:
  "getDefinitionAtPosition sample_mode_env
       (service (project_template sample_mode_env new_mode_state sample_vue_doc))
       ''/w/a.vue.template'' 14 =
     Some [\<lparr> span_fileName = ''/w/lib.ts'', textSpan = \<lparr> span_start = 3, span_length = 4 \<rparr> \<rparr>,
           \<lparr> span_fileName = ''/w/gone.ts'', textSpan = \<lparr> span_start = 0, span_length = 1 \<rparr> \<rparr>] \<and>
   fst (findDefinition sample_mode_env new_mode_state sample_vue_doc \<lparr> line = 0, character = 4 \<rparr>) =
     Inl TypeError \<and>
   fst (findReferences sample_mode_env new_mode_state sample_vue_doc \<lparr> line = 0, character = 4 \<rparr>) =
     Inr [\<lparr> loc_uri = ''/w/lib.ts'',
            loc_range = Range_create \<lparr> line = 0, character = 3 \<rparr> \<lparr> line = 0, character = 7 \<rparr> \<rparr>]"
proof -
  have on: "templateInterpolationService (config new_mode_state)"
    by (simp add: templateInterpolationService_def lodash_get_def new_mode_state_def)
  show ?thesis
    using on
    by (simp add: findDefinition_def findReferences_def locate_def Let_def)
       (simp add: sample_mode_env_def template_doc_def sample_vue_doc_def TextDocument_create_def
          sample_paths_def and_then_def getSourceDoc_def convertRange_def)
qed

end
